theory Spec2Isabelle
  imports Complex_Main "HOL-Library.Multiset"
begin

section \<open>Domain types\<close>

text \<open>
  Modelled from the spec: the declarations of \<open>Task\<close>, \<open>TaskList\<close> and \<open>TaskStatus\<close>
  (imported from \<open>./domain\<close>) are not among the sources. The spec gives a task an
  identifier (an opaque string assigned by the server), the identifier of its list, a
  title, a priority (an ordered category, here its rank), an optional due date (a calendar
  date, here in its serialised form) and a status \<open>OPEN | CLOSED\<close>; a task list has an
  identifier, a title and an optional description. Identifiers being strings, the
  non-null assertion of \<open>task.id!\<close> is the identity.
\<close>

datatype TaskStatus = OPEN | CLOSED

record Task =
  id_Task :: string
  taskListId_Task :: string
  title_Task :: string
  priority_Task :: nat
  dueDate_Task :: "string option"
  status_Task :: TaskStatus

record TaskList =
  id_TaskList :: string
  title_TaskList :: string
  description_TaskList :: "string option"

text \<open>
  Modelled from the spec: the drafts \<open>Omit<TaskList, "id">\<close> and
  \<open>Omit<Task, "id" | "taskListId">\<close> sent when an entity is created.
\<close>

record TaskListDraft =
  title_TaskListDraft :: string
  description_TaskListDraft :: "string option"

record TaskDraft =
  title_TaskDraft :: string
  priority_TaskDraft :: nat
  dueDate_TaskDraft :: "string option"
  status_TaskDraft :: TaskStatus

section \<open>The local state and its reducer (AppProvider.tsx)\<close>

text \<open>
  \<open>tasks\<close> is a JavaScript object used as a dictionary from task-list id to the tasks
  known for that list: a key that was never written is \<open>None\<close>, which is not the same
  as \<open>Some []\<close>.
\<close>

record AppState =
  taskLists :: "TaskList list"
  tasks :: "string \<rightharpoonup> Task list"

datatype Action =
    FETCH_TASKLISTS "TaskList list"
  | GET_TASKLIST TaskList
  | CREATE_TASKLIST TaskList
  | UPDATE_TASKLIST TaskList
  | DELETE_TASKLIST string
  | FETCH_TASKS string "Task list"
  | CREATE_TASK string Task
  | GET_TASK string Task
  | UPDATE_TASK string string Task
  | DELETE_TASK string string

text \<open>
  The only way the reducer can fail: \<open>state.tasks[taskListId].map\<close> and
  \<open>state.tasks[taskListId].filter\<close> read a property of \<open>undefined\<close> when the list has
  no slice, which throws a \<open>TypeError\<close>.
\<close>

datatype fault = TypeError

fun reducer :: "AppState \<Rightarrow> Action \<Rightarrow> fault + AppState" where
  "reducer state (FETCH_TASKLISTS payload) = Inr (state\<lparr>taskLists := payload\<rparr>)"
| "reducer state (GET_TASKLIST payload) =
     Inr (state\<lparr>taskLists :=
       (if list_ex (\<lambda>wl. id_TaskList wl = id_TaskList payload) (taskLists state)
        then map (\<lambda>wl. if id_TaskList wl = id_TaskList payload then payload else wl)
               (taskLists state)
        else taskLists state @ [payload])\<rparr>)"
| "reducer state (CREATE_TASKLIST payload) =
     Inr (state\<lparr>taskLists := taskLists state @ [payload]\<rparr>)"
| "reducer state (UPDATE_TASKLIST payload) =
     Inr (state\<lparr>taskLists :=
       map (\<lambda>wl. if id_TaskList wl = id_TaskList payload then payload else wl)
         (taskLists state)\<rparr>)"
| "reducer state (DELETE_TASKLIST payload) =
     Inr (state\<lparr>taskLists := filter (\<lambda>wl. id_TaskList wl \<noteq> payload) (taskLists state)\<rparr>)"
| "reducer state (FETCH_TASKS taskListId payload_tasks) =
     Inr (state\<lparr>tasks := (tasks state)(taskListId \<mapsto> payload_tasks)\<rparr>)"
| "reducer state (CREATE_TASK taskListId task) =
     Inr (state\<lparr>tasks := (tasks state)(taskListId \<mapsto>
       (case tasks state taskListId of None \<Rightarrow> [] | Some ts \<Rightarrow> ts) @ [task])\<rparr>)"
| "reducer state (GET_TASK taskListId task) =
     (let existingTasks = (case tasks state taskListId of None \<Rightarrow> [] | Some ts \<Rightarrow> ts);
          taskExists = list_ex (\<lambda>t. id_Task t = id_Task task) existingTasks;
          updatedTasks =
            (if taskExists
             then map (\<lambda>t. if id_Task t = id_Task task then task else t) existingTasks
             else existingTasks @ [task])
      in Inr (state\<lparr>tasks := (tasks state)(taskListId \<mapsto> updatedTasks)\<rparr>))"
| "reducer state (UPDATE_TASK taskListId taskId task) =
     (case tasks state taskListId of
        None \<Rightarrow> Inl TypeError
      | Some ts \<Rightarrow>
          Inr (state\<lparr>tasks := (tasks state)(taskListId \<mapsto>
            map (\<lambda>t. if id_Task t = taskId then task else t) ts)\<rparr>))"
| "reducer state (DELETE_TASK taskListId taskId) =
     (case tasks state taskListId of
        None \<Rightarrow> Inl TypeError
      | Some ts \<Rightarrow>
          Inr (state\<lparr>tasks := (tasks state)(taskListId \<mapsto>
            filter (\<lambda>t. id_Task t \<noteq> taskId) ts)\<rparr>))"

definition initialState :: AppState where
  "initialState = \<lparr>taskLists = [], tasks = Map.empty\<rparr>"

text \<open>
  \<open>useReducer(reducer, initialState)\<close>: the commands handed to \<open>dispatch\<close> are applied to
  the state one after the other, in the order they were dispatched; a fault of the
  reducer ends the run.
\<close>

fun dispatchAll :: "AppState \<Rightarrow> Action list \<Rightarrow> fault + AppState" where
  "dispatchAll state [] = Inr state"
| "dispatchAll state (action # rest) =
     (case reducer state action of
        Inl f \<Rightarrow> Inl f
      | Inr state' \<Rightarrow> dispatchAll state' rest)"

section \<open>The remote store client (the \<open>api\<close> object of AppProvider.tsx)\<close>

text \<open>
  \<open>import.meta.env.VITE_API_URL || '...'\<close>: an unset or empty variable gives the
  default address.
\<close>

definition API_BASE_URL :: "string option \<Rightarrow> string" where
  "API_BASE_URL VITE_API_URL =
     (case VITE_API_URL of
        None \<Rightarrow> ''https://tasks-backend-wium.onrender.com''
      | Some url \<Rightarrow> if url = [] then ''https://tasks-backend-wium.onrender.com'' else url)"

text \<open>
  The error with which axios rejects the promise of a request: a transport error or a
  timeout carries a message and no response, a status outside 2xx carries the response.
\<close>

record ErrorResponse =
  status :: nat
  data :: string
  headers :: "(string \<times> string) list"

record AxiosError =
  message :: string
  response :: "ErrorResponse option"

datatype body =
    TaskListDraftBody TaskListDraft
  | TaskListBody TaskList
  | TaskDraftBody TaskDraft
  | TaskBody Task

text \<open>Every request is sent with the same \<open>jsonHeaders\<close> configuration, left out here.\<close>

datatype request =
    GET string
  | POST string body
  | PUT string body
  | DELETE string

datatype console_value =
    Str string
  | Num nat
  | Undefined
  | HeadersValue "(string \<times> string) list"
  | TaskListsValue "TaskList list"
  | Thrown AxiosError
  | Obj "(string \<times> console_value) list"

datatype log_entry =
    console_log "console_value list"
  | console_error "console_value list"

text \<open>
  What a call of the client did: the requests it sent, the commands it handed to
  \<open>dispatch\<close>, the lines it wrote to the console, and how its promise settled
  (\<open>Inl\<close>: rejected with the error thrown again, \<open>Inr\<close>: resolved).
\<close>

record effects =
  requests :: "request list"
  dispatched :: "Action list"
  console :: "log_entry list"

record outcome = effects +
  settled :: "AxiosError + unit"

text \<open>The object literal logged by the \<open>catch\<close> blocks.\<close>

definition error_context :: "AxiosError \<Rightarrow> (string \<times> console_value) list" where
  "error_context error =
     [(''message'', Str (message error)),
      (''status'', case response error of None \<Rightarrow> Undefined | Some r \<Rightarrow> Num (status r)),
      (''data'', case response error of None \<Rightarrow> Undefined | Some r \<Rightarrow> Str (data r))]"

text \<open>
  Each function takes, after its own arguments, the way the awaited axios call settled:
  \<open>Inr\<close> with \<open>response.data\<close>, or \<open>Inl\<close> with the error thrown into the \<open>catch\<close> block.
\<close>

definition fetchTaskLists :: "string option \<Rightarrow> AxiosError + TaskList list \<Rightarrow> outcome" where
  "fetchTaskLists env reply =
     (let url = API_BASE_URL env @ ''/api/task-lists'';
          before = console_log [Str ''Fetching task lists from:'', Str url]
      in case reply of
           Inr response_data \<Rightarrow>
             \<lparr>requests = [GET url],
              dispatched = [FETCH_TASKLISTS response_data],
              console = [before,
                console_log [Str ''Task lists response:'', TaskListsValue response_data]],
              settled = Inr ()\<rparr>
         | Inl error \<Rightarrow>
             \<lparr>requests = [GET url],
              dispatched = [],
              console = [before,
                console_error [Str ''Error fetching task lists:'',
                  Obj (error_context error @
                    [(''headers'', case response error of None \<Rightarrow> Undefined
                                   | Some r \<Rightarrow> HeadersValue (headers r))])]],
              settled = Inl error\<rparr>)"

definition getTaskList :: "string option \<Rightarrow> string \<Rightarrow> AxiosError + TaskList \<Rightarrow> outcome" where
  "getTaskList env i reply =
     (let url = API_BASE_URL env @ ''/api/task-lists/'' @ i
      in case reply of
           Inr response_data \<Rightarrow>
             \<lparr>requests = [GET url], dispatched = [GET_TASKLIST response_data],
              console = [], settled = Inr ()\<rparr>
         | Inl error \<Rightarrow>
             \<lparr>requests = [GET url], dispatched = [],
              console = [console_error [Str ''Error getting task list:'',
                                        Obj (error_context error)]],
              settled = Inl error\<rparr>)"

definition createTaskList ::
  "string option \<Rightarrow> TaskListDraft \<Rightarrow> AxiosError + TaskList \<Rightarrow> outcome" where
  "createTaskList env taskList reply =
     (let url = API_BASE_URL env @ ''/api/task-lists''
      in case reply of
           Inr response_data \<Rightarrow>
             \<lparr>requests = [POST url (TaskListDraftBody taskList)],
              dispatched = [CREATE_TASKLIST response_data],
              console = [], settled = Inr ()\<rparr>
         | Inl error \<Rightarrow>
             \<lparr>requests = [POST url (TaskListDraftBody taskList)], dispatched = [],
              console = [console_error [Str ''Error creating task list:'',
                                        Obj (error_context error)]],
              settled = Inl error\<rparr>)"

definition getTask ::
  "string option \<Rightarrow> string \<Rightarrow> string \<Rightarrow> AxiosError + Task \<Rightarrow> outcome" where
  "getTask env taskListId taskId reply =
     (let url = API_BASE_URL env @ ''/api/task-lists/'' @ taskListId @ ''/tasks/'' @ taskId
      in case reply of
           Inr response_data \<Rightarrow>
             \<lparr>requests = [GET url], dispatched = [GET_TASK taskListId response_data],
              console = [], settled = Inr ()\<rparr>
         | Inl error \<Rightarrow>
             \<lparr>requests = [GET url], dispatched = [],
              console = [console_error [Str ''Error getting task:'',
                                        Obj (error_context error)]],
              settled = Inl error\<rparr>)"

definition updateTaskList ::
  "string option \<Rightarrow> string \<Rightarrow> TaskList \<Rightarrow> AxiosError + TaskList \<Rightarrow> outcome" where
  "updateTaskList env i taskList reply =
     (let url = API_BASE_URL env @ ''/api/task-lists/'' @ i
      in case reply of
           Inr response_data \<Rightarrow>
             \<lparr>requests = [PUT url (TaskListBody taskList)],
              dispatched = [UPDATE_TASKLIST response_data],
              console = [], settled = Inr ()\<rparr>
         | Inl error \<Rightarrow>
             \<lparr>requests = [PUT url (TaskListBody taskList)], dispatched = [],
              console = [console_error [Str ''Error updating task list:'',
                                        Obj (error_context error)]],
              settled = Inl error\<rparr>)"

definition deleteTaskList :: "string option \<Rightarrow> string \<Rightarrow> AxiosError + unit \<Rightarrow> outcome" where
  "deleteTaskList env i reply =
     (let url = API_BASE_URL env @ ''/api/task-lists/'' @ i
      in case reply of
           Inr _ \<Rightarrow>
             \<lparr>requests = [DELETE url], dispatched = [DELETE_TASKLIST i],
              console = [], settled = Inr ()\<rparr>
         | Inl error \<Rightarrow>
             \<lparr>requests = [DELETE url], dispatched = [],
              console = [console_error [Str ''Error deleting task list:'',
                                        Obj (error_context error)]],
              settled = Inl error\<rparr>)"

definition fetchTasks :: "string option \<Rightarrow> string \<Rightarrow> AxiosError + Task list \<Rightarrow> outcome" where
  "fetchTasks env taskListId reply =
     (let url = API_BASE_URL env @ ''/api/task-lists/'' @ taskListId @ ''/tasks''
      in case reply of
           Inr response_data \<Rightarrow>
             \<lparr>requests = [GET url], dispatched = [FETCH_TASKS taskListId response_data],
              console = [], settled = Inr ()\<rparr>
         | Inl error \<Rightarrow>
             \<lparr>requests = [GET url], dispatched = [],
              console = [console_error [Str ''Error fetching tasks:'',
                                        Obj (error_context error)]],
              settled = Inl error\<rparr>)"

definition createTask ::
  "string option \<Rightarrow> string \<Rightarrow> TaskDraft \<Rightarrow> AxiosError + Task \<Rightarrow> outcome" where
  "createTask env taskListId task reply =
     (let url = API_BASE_URL env @ ''/api/task-lists/'' @ taskListId @ ''/tasks''
      in case reply of
           Inr response_data \<Rightarrow>
             \<lparr>requests = [POST url (TaskDraftBody task)],
              dispatched = [CREATE_TASK taskListId response_data],
              console = [], settled = Inr ()\<rparr>
         | Inl error \<Rightarrow>
             \<lparr>requests = [POST url (TaskDraftBody task)], dispatched = [],
              console = [console_error [Str ''Error creating task:'',
                                        Obj (error_context error)]],
              settled = Inl error\<rparr>)"

definition updateTask ::
  "string option \<Rightarrow> string \<Rightarrow> string \<Rightarrow> Task \<Rightarrow> AxiosError + Task \<Rightarrow> outcome" where
  "updateTask env taskListId taskId task reply =
     (let url = API_BASE_URL env @ ''/api/task-lists/'' @ taskListId @ ''/tasks/'' @ taskId
      in case reply of
           Inr response_data \<Rightarrow>
             \<lparr>requests = [PUT url (TaskBody task)],
              dispatched = [UPDATE_TASK taskListId taskId response_data],
              console = [], settled = Inr ()\<rparr>
         | Inl error \<Rightarrow>
             \<lparr>requests = [PUT url (TaskBody task)], dispatched = [],
              console = [console_error [Str ''Error updating task:'',
                                        Obj (error_context error)]],
              settled = Inl error\<rparr>)"

definition deleteTask ::
  "string option \<Rightarrow> string \<Rightarrow> string \<Rightarrow> AxiosError + unit \<Rightarrow> outcome" where
  "deleteTask env taskListId taskId reply =
     (let url = API_BASE_URL env @ ''/api/task-lists/'' @ taskListId @ ''/tasks/'' @ taskId
      in case reply of
           Inr _ \<Rightarrow>
             \<lparr>requests = [DELETE url], dispatched = [DELETE_TASK taskListId taskId],
              console = [], settled = Inr ()\<rparr>
         | Inl error \<Rightarrow>
             \<lparr>requests = [DELETE url], dispatched = [],
              console = [console_error [Str ''Error deleting task:'',
                                        Obj (error_context error)]],
              settled = Inl error\<rparr>)"

text \<open>The state of the store once the commands of a call have been applied.\<close>

definition store_after :: "AppState \<Rightarrow> outcome \<Rightarrow> fault + AppState" where
  "store_after state out = dispatchAll state (dispatched out)"

section \<open>The task-list screen (the component that reads the store)\<close>

text \<open>
  \<open>listId\<close> is a route parameter of type \<open>string | undefined\<close>. The tests \<open>!listId\<close>
  and \<open>listId && ...\<close> treat the empty string like \<open>undefined\<close>.
\<close>

definition truthy :: "string option \<Rightarrow> string option" where
  "truthy listId = (case listId of None \<Rightarrow> None | Some l \<Rightarrow> if l = [] then None else Some l)"

text \<open>
  The value is a JavaScript number. The quotient and the product are taken here in the
  reals; the count of closed tasks and the length are natural numbers.
\<close>

definition completionPercentage :: "AppState \<Rightarrow> string option \<Rightarrow> real" where
  "completionPercentage state listId =
     (case truthy listId of
        None \<Rightarrow> 0
      | Some l \<Rightarrow>
          (case tasks state l of
             None \<Rightarrow> 0
           | Some ts \<Rightarrow>
               (let closeTaskCount = length (filter (\<lambda>task. status_Task task = CLOSED) ts)
                in if length ts > 0
                   then (real closeTaskCount / real (length ts)) * 100
                   else 0)))"

text \<open>
  \<open>toggleStatus\<close> chains \<open>api.updateTask\<close>, then \<open>api.fetchTasks\<close>, then a \<open>catch\<close> that
  logs. It takes the way the two requests settle; the second is only sent when the first
  call resolved.
\<close>

definition toggleStatus ::
  "string option \<Rightarrow> string option \<Rightarrow> Task \<Rightarrow> AxiosError + Task \<Rightarrow> AxiosError + Task list
     \<Rightarrow> effects" where
  "toggleStatus env listId task putReply fetchReply =
     (case truthy listId of
        None \<Rightarrow>
          \<lparr>requests = [], dispatched = [],
           console = [console_error [Str ''listId is undefined'']]\<rparr>
      | Some l \<Rightarrow>
          (let updatedTask =
                 task\<lparr>status_Task := (if status_Task task = CLOSED then OPEN else CLOSED)\<rparr>;
               updated = updateTask env l (id_Task task) updatedTask putReply
           in case settled updated of
                Inl error \<Rightarrow>
                  \<lparr>requests = requests updated,
                   dispatched = dispatched updated,
                   console = console updated @
                     [console_error [Str ''Error updating task:'', Thrown error]]\<rparr>
              | Inr _ \<Rightarrow>
                  (let fetched = fetchTasks env l fetchReply
                   in case settled fetched of
                        Inl error \<Rightarrow>
                          \<lparr>requests = requests updated @ requests fetched,
                           dispatched = dispatched updated @ dispatched fetched,
                           console = console updated @ console fetched @
                             [console_error [Str ''Error updating task:'', Thrown error]]\<rparr>
                      | Inr _ \<Rightarrow>
                          \<lparr>requests = requests updated @ requests fetched,
                           dispatched = dispatched updated @ dispatched fetched,
                           console = console updated @ console fetched\<rparr>)))"

section \<open>Notions used to state the properties\<close>

text \<open>The tasks known for a list, as \<open>state.tasks[listId] || []\<close> reads them.\<close>

definition slice_of :: "AppState \<Rightarrow> string \<Rightarrow> Task list" where
  "slice_of state listId = (case tasks state listId of None \<Rightarrow> [] | Some ts \<Rightarrow> ts)"

text \<open>The first entry of a slice with a given task id.\<close>

definition entry_with_id :: "string \<Rightarrow> Task list \<Rightarrow> Task option" where
  "entry_with_id taskId ts = find (\<lambda>t. id_Task t = taskId) ts"

text \<open>
  The four commands of the spec's property on slices: ReplaceTasks, AppendTask,
  UpsertTask and RemoveTask, addressed to the list \<open>listId\<close>.
\<close>

fun on_list :: "string \<Rightarrow> Action \<Rightarrow> bool" where
  "on_list listId (FETCH_TASKS l ts) = (l = listId)"
| "on_list listId (CREATE_TASK l t) = (l = listId)"
| "on_list listId (GET_TASK l t) = (l = listId)"
| "on_list listId (DELETE_TASK l taskId) = (l = listId)"
| "on_list listId _ = False"

text \<open>
  What one command says about a task id: \<open>None\<close> when it does not refer to the id,
  \<open>Some (Some t)\<close> when it carries the payload \<open>t\<close> for it, \<open>Some None\<close> when it removes
  it. ReplaceTasks speaks about every id: the ids missing from its payload are removed.
\<close>

fun says :: "string \<Rightarrow> Action \<Rightarrow> Task option option" where
  "says taskId (FETCH_TASKS l ts) = Some (entry_with_id taskId ts)"
| "says taskId (CREATE_TASK l t) = (if id_Task t = taskId then Some (Some t) else None)"
| "says taskId (GET_TASK l t) = (if id_Task t = taskId then Some (Some t) else None)"
| "says taskId (DELETE_TASK l i) = (if i = taskId then Some None else None)"
| "says taskId _ = None"

text \<open>What the last command of a sequence that refers to the id says about it.\<close>

fun last_reference :: "string \<Rightarrow> Action list \<Rightarrow> Task option option" where
  "last_reference taskId [] = None"
| "last_reference taskId (a # rest) =
     (case last_reference taskId rest of
        Some r \<Rightarrow> Some r
      | None \<Rightarrow> says taskId a)"

text \<open>
  A command brings no second entry for an id: the payload of ReplaceTasks has no two
  tasks with one id, and the task of AppendTask has an id the slice does not hold.
\<close>

fun brings_no_duplicate :: "Task list \<Rightarrow> Action \<Rightarrow> bool" where
  "brings_no_duplicate slice (FETCH_TASKS l ts) = distinct (map id_Task ts)"
| "brings_no_duplicate slice (CREATE_TASK l t) = (id_Task t \<notin> set (map id_Task slice))"
| "brings_no_duplicate slice _ = True"

fun no_duplicates_brought :: "AppState \<Rightarrow> string \<Rightarrow> Action list \<Rightarrow> bool" where
  "no_duplicates_brought state listId [] = True"
| "no_duplicates_brought state listId (a # rest) =
     (brings_no_duplicate (slice_of state listId) a \<and>
      (case reducer state a of
         Inl f \<Rightarrow> True
       | Inr state' \<Rightarrow> no_duplicates_brought state' listId rest))"

text \<open>
  A console line reports a failure when it is a \<open>console.error\<close> of a label and an
  object whose first three fields are the message, the status code and the response body
  of the error (the last two \<open>undefined\<close> when there was no response).
\<close>

fun reports :: "AxiosError \<Rightarrow> log_entry \<Rightarrow> bool" where
  "reports error (console_error [Str label, Obj ctx]) =
     (take 3 ctx = error_context error)"
| "reports error _ = False"

text \<open>Tasks and task lists for the scenarios.\<close>

definition mkTask :: "string \<Rightarrow> string \<Rightarrow> TaskStatus \<Rightarrow> Task" where
  "mkTask taskId title st =
     \<lparr>id_Task = taskId, taskListId_Task = ''L1'', title_Task = title, priority_Task = 1,
      dueDate_Task = None, status_Task = st\<rparr>"

definition mkTaskList :: "string \<Rightarrow> string \<Rightarrow> TaskList" where
  "mkTaskList listId title =
     \<lparr>id_TaskList = listId, title_TaskList = title, description_TaskList = None\<rparr>"

definition error500 :: AxiosError where
  "error500 =
     \<lparr>message = ''Request failed with status code 500'',
      response = Some \<lparr>status = 500, data = ''Internal Server Error'', headers = []\<rparr>\<rparr>"

section \<open>Facts about lists of entities with identifiers\<close>

lemma replace_unknown_id:
  "k \<notin> set (map f xs) \<Longrightarrow> map (\<lambda>x. if f x = k then p else x) xs = xs"
  by (induction xs) auto


lemma find_append_fresh:
  "f t \<notin> set (map f ts) \<Longrightarrow>
   find (\<lambda>x. f x = i) (ts @ [t]) = (if f t = i then Some t else find (\<lambda>x. f x = i) ts)"
  by (induction ts) auto

lemma find_replace_other:
  "f t = k \<Longrightarrow> k \<noteq> i \<Longrightarrow>
   find (\<lambda>x. f x = i) (map (\<lambda>x. if f x = k then t else x) ts) = find (\<lambda>x. f x = i) ts"
  by (induction ts) simp_all

lemma find_replace_same:
  "f t = k \<Longrightarrow> k \<in> set (map f ts) \<Longrightarrow>
   find (\<lambda>x. f x = k) (map (\<lambda>x. if f x = k then t else x) ts) = Some t"
  by (induction ts) (simp, fastforce)

lemma find_replace:
  "k \<in> set (map f ts) \<Longrightarrow> f t = k \<Longrightarrow>
   find (\<lambda>x. f x = i) (map (\<lambda>x. if f x = k then t else x) ts) =
     (if k = i then Some t else find (\<lambda>x. f x = i) ts)"
  using find_replace_other [of f t k i ts] find_replace_same [of f t k ts]
  by (cases "k = i") simp_all

lemma find_filter_other:
  "find (\<lambda>x. f x = i) (filter (\<lambda>x. f x \<noteq> k) ts) =
     (if k = i then None else find (\<lambda>x. f x = i) ts)"
  by (induction ts) auto

lemma keys_replace:
  "f t = k \<Longrightarrow> map f (map (\<lambda>x. if f x = k then t else x) ts) = map f ts"
  by (induction ts) simp_all

lemma entry_append:
  "id_Task t \<notin> set (map id_Task ts) \<Longrightarrow>
   entry_with_id i (ts @ [t]) = (if id_Task t = i then Some t else entry_with_id i ts)"
  unfolding entry_with_id_def by (rule find_append_fresh)

lemma entry_replace:
  "k \<in> set (map id_Task ts) \<Longrightarrow> id_Task t = k \<Longrightarrow>
   entry_with_id i (map (\<lambda>x. if id_Task x = k then t else x) ts) =
     (if k = i then Some t else entry_with_id i ts)"
  unfolding entry_with_id_def by (rule find_replace)

lemma entry_filter:
  "entry_with_id i (filter (\<lambda>t. id_Task t \<noteq> k) ts) =
     (if k = i then None else entry_with_id i ts)"
  unfolding entry_with_id_def by (rule find_filter_other)

lemma ids_replace:
  "id_Task t = k \<Longrightarrow>
   map id_Task (map (\<lambda>x. if id_Task x = k then t else x) ts) = map id_Task ts"
  by (rule keys_replace)

lemma list_ex_id: "list_ex (\<lambda>x. id_Task x = k) ts \<longleftrightarrow> k \<in> set (map id_Task ts)"
  by (induction ts) auto

section \<open>One command on the slice of a list\<close>

lemma step_entry:
  assumes "on_list l a" and "brings_no_duplicate (slice_of s l) a" and "reducer s a = Inr s'"
  shows "entry_with_id i (slice_of s' l) =
           (case says i a of None \<Rightarrow> entry_with_id i (slice_of s l) | Some r \<Rightarrow> r)"
proof (cases a)
  case (FETCH_TASKS l' ts)
  with assms show ?thesis by (auto simp: slice_of_def)
next
  case (CREATE_TASK l' t)
  with assms have "l' = l" and fresh: "id_Task t \<notin> set (map id_Task (slice_of s l))"
    and "slice_of s' l = slice_of s l @ [t]"
    by (auto simp: slice_of_def)
  with CREATE_TASK show ?thesis
    by (simp add: entry_append)
next
  case (GET_TASK l' t)
  with assms have [simp]: "l' = l" by simp
  show ?thesis
  proof (cases "id_Task t \<in> set (map id_Task (slice_of s l))")
    case True
    with assms GET_TASK have "slice_of s' l =
        map (\<lambda>x. if id_Task x = id_Task t then t else x) (slice_of s l)"
      by (auto simp: slice_of_def list_ex_id Let_def)
    with True GET_TASK show ?thesis
      by (simp add: entry_replace)
  next
    case False
    with assms GET_TASK have "slice_of s' l = slice_of s l @ [t]"
      by (auto simp: slice_of_def list_ex_id Let_def)
    with False GET_TASK show ?thesis
      by (simp add: entry_append)
  qed
next
  case (DELETE_TASK l' k)
  with assms have "slice_of s' l = filter (\<lambda>t. id_Task t \<noteq> k) (slice_of s l)"
    by (auto simp: slice_of_def split: option.splits)
  with DELETE_TASK show ?thesis
    by (simp add: entry_filter)
qed (use assms in auto)

lemma step_distinct:
  assumes "on_list l a" and "brings_no_duplicate (slice_of s l) a" and "reducer s a = Inr s'"
    and "distinct (map id_Task (slice_of s l))"
  shows "distinct (map id_Task (slice_of s' l))"
proof (cases a)
  case (GET_TASK l' t)
  with assms have [simp]: "l' = l" by simp
  show ?thesis
  proof (cases "id_Task t \<in> set (map id_Task (slice_of s l))")
    case True
    with assms GET_TASK have "slice_of s' l =
        map (\<lambda>x. if id_Task x = id_Task t then t else x) (slice_of s l)"
      by (auto simp: slice_of_def list_ex_id Let_def)
    with assms show ?thesis
      by (simp only: ids_replace)
  next
    case False
    with assms GET_TASK have "slice_of s' l = slice_of s l @ [t]"
      by (auto simp: slice_of_def list_ex_id Let_def)
    with False assms show ?thesis
      by simp
  qed
next
  case (DELETE_TASK l' k)
  with assms have "slice_of s' l = filter (\<lambda>t. id_Task t \<noteq> k) (slice_of s l)"
    by (auto simp: slice_of_def split: option.splits)
  with assms show ?thesis
    by (simp add: distinct_map_filter)
qed (use assms in \<open>auto simp: slice_of_def\<close>)

section \<open>Failed calls of the remote store client\<close>

text \<open>
  C1. When the HTTP call of a client operation fails (axios rejects on a status outside
  2xx and on a transport error), the operation hands no command to \<open>dispatch\<close>, so the
  state of the store, \<open>tasks[listId]\<close> included, is what it was before the call; it
  writes the error's message, status code and response body to the console and its
  promise is rejected with the same error. This holds for each of the ten operations,
  and in particular for \<open>deleteTask\<close> answered by a 500 response.
\<close>

theorem failed_call_dispatches_nothing:
  "dispatched (fetchTaskLists env (Inl error)) = []
   \<and> dispatched (getTaskList env listId (Inl error)) = []
   \<and> dispatched (createTaskList env listDraft (Inl error)) = []
   \<and> dispatched (updateTaskList env listId taskList (Inl error)) = []
   \<and> dispatched (deleteTaskList env listId (Inl error)) = []
   \<and> dispatched (fetchTasks env listId (Inl error)) = []
   \<and> dispatched (createTask env listId taskDraft (Inl error)) = []
   \<and> dispatched (getTask env listId taskId (Inl error)) = []
   \<and> dispatched (updateTask env listId taskId task (Inl error)) = []
   \<and> dispatched (deleteTask env listId taskId (Inl error)) = []
   \<and> store_after state (fetchTaskLists env (Inl error)) = Inr state
   \<and> store_after state (getTaskList env listId (Inl error)) = Inr state
   \<and> store_after state (createTaskList env listDraft (Inl error)) = Inr state
   \<and> store_after state (updateTaskList env listId taskList (Inl error)) = Inr state
   \<and> store_after state (deleteTaskList env listId (Inl error)) = Inr state
   \<and> store_after state (fetchTasks env listId (Inl error)) = Inr state
   \<and> store_after state (createTask env listId taskDraft (Inl error)) = Inr state
   \<and> store_after state (getTask env listId taskId (Inl error)) = Inr state
   \<and> store_after state (updateTask env listId taskId task (Inl error)) = Inr state
   \<and> store_after state (deleteTask env listId taskId (Inl error)) = Inr state
   \<and> settled (fetchTaskLists env (Inl error)) = Inl error
   \<and> settled (getTaskList env listId (Inl error)) = Inl error
   \<and> settled (createTaskList env listDraft (Inl error)) = Inl error
   \<and> settled (updateTaskList env listId taskList (Inl error)) = Inl error
   \<and> settled (deleteTaskList env listId (Inl error)) = Inl error
   \<and> settled (fetchTasks env listId (Inl error)) = Inl error
   \<and> settled (createTask env listId taskDraft (Inl error)) = Inl error
   \<and> settled (getTask env listId taskId (Inl error)) = Inl error
   \<and> settled (updateTask env listId taskId task (Inl error)) = Inl error
   \<and> settled (deleteTask env listId taskId (Inl error)) = Inl error
   \<and> list_ex (reports error) (console (fetchTaskLists env (Inl error)))
   \<and> list_ex (reports error) (console (getTaskList env listId (Inl error)))
   \<and> list_ex (reports error) (console (createTaskList env listDraft (Inl error)))
   \<and> list_ex (reports error) (console (updateTaskList env listId taskList (Inl error)))
   \<and> list_ex (reports error) (console (deleteTaskList env listId (Inl error)))
   \<and> list_ex (reports error) (console (fetchTasks env listId (Inl error)))
   \<and> list_ex (reports error) (console (createTask env listId taskDraft (Inl error)))
   \<and> list_ex (reports error) (console (getTask env listId taskId (Inl error)))
   \<and> list_ex (reports error) (console (updateTask env listId taskId task (Inl error)))
   \<and> list_ex (reports error) (console (deleteTask env listId taskId (Inl error)))
   \<and> console (deleteTask env listId taskId (Inl error)) =
        [console_error [Str ''Error deleting task:'', Obj (error_context error)]]
   \<and> map_option status (response error500) = Some 500
   \<and> store_after state (deleteTask env listId taskId (Inl error500)) = Inr state
   \<and> settled (deleteTask env listId taskId (Inl error500)) = Inl error500"
  by (simp add: fetchTaskLists_def getTaskList_def createTaskList_def updateTaskList_def
      deleteTaskList_def fetchTasks_def createTask_def getTask_def updateTask_def
      deleteTask_def store_after_def error500_def Let_def error_context_def)

section \<open>Sequences of commands on one slice\<close>

text \<open>
  C2, as the code has it. The claim that every sequence of ReplaceTasks, AppendTask,
  UpsertTask and RemoveTask leaves one entry per task id fails: AppendTask appends
  without looking at the ids already there, so two of them with one id leave two
  entries, the first of which is not the payload of the last command.
\<close>

theorem append_duplicates_counterexample:
  "dispatchAll initialState
     [CREATE_TASK ''L1'' (mkTask ''T1'' ''a'' OPEN), CREATE_TASK ''L1'' (mkTask ''T1'' ''b'' OPEN)] =
     Inr (initialState\<lparr>tasks := (tasks initialState)(''L1'' \<mapsto>
       [mkTask ''T1'' ''a'' OPEN, mkTask ''T1'' ''b'' OPEN])\<rparr>)
   \<and> \<not> distinct (map id_Task (slice_of (initialState\<lparr>tasks := (tasks initialState)(''L1'' \<mapsto>
       [mkTask ''T1'' ''a'' OPEN, mkTask ''T1'' ''b'' OPEN])\<rparr>) ''L1''))
   \<and> entry_with_id ''T1'' (slice_of (initialState\<lparr>tasks := (tasks initialState)(''L1'' \<mapsto>
       [mkTask ''T1'' ''a'' OPEN, mkTask ''T1'' ''b'' OPEN])\<rparr>) ''L1'') \<noteq>
       Some (mkTask ''T1'' ''b'' OPEN)"
  by (simp add: initialState_def mkTask_def entry_with_id_def slice_of_def)

text \<open>
  C2, amended. Take a sequence of ReplaceTasks, AppendTask, UpsertTask and RemoveTask
  commands on one list that the reducer applies without fault, from a state whose slice
  for the list has no two entries with one id, and in which no command brings a
  duplicate (the payload of a ReplaceTasks has no two tasks with one id, an AppendTask
  carries an id that the slice does not hold at that moment). Then the resulting slice
  has no two entries with one id, and for every task id its entry is what the last
  command referring to the id says: the payload of that command, or no entry when the
  command removed it; an id no command refers to keeps the entry it had.
\<close>

theorem one_entry_per_id_last_wins:
  assumes "list_all (on_list listId) cmds"
    and "distinct (map id_Task (slice_of state listId))"
    and "no_duplicates_brought state listId cmds"
    and "dispatchAll state cmds = Inr state'"
  shows "distinct (map id_Task (slice_of state' listId))
       \<and> entry_with_id taskId (slice_of state' listId) =
           (case last_reference taskId cmds of
              None \<Rightarrow> entry_with_id taskId (slice_of state listId)
            | Some r \<Rightarrow> r)"
  using assms
proof (induction cmds arbitrary: state)
  case Nil
  then show ?case by simp
next
  case (Cons a rest)
  from Cons.prems(4) obtain s1 where step: "reducer state a = Inr s1"
    and run: "dispatchAll s1 rest = Inr state'"
    by (auto split: sum.splits)
  from Cons.prems(1) have a: "on_list listId a" and rest: "list_all (on_list listId) rest"
    by simp_all
  from Cons.prems(3) step have fresh: "brings_no_duplicate (slice_of state listId) a"
    and fresh_rest: "no_duplicates_brought s1 listId rest"
    by simp_all
  have d1: "distinct (map id_Task (slice_of s1 listId))"
    using a fresh step Cons.prems(2) by (rule step_distinct)
  have e1: "entry_with_id taskId (slice_of s1 listId) =
      (case says taskId a of None \<Rightarrow> entry_with_id taskId (slice_of state listId) | Some r \<Rightarrow> r)"
    using a fresh step by (rule step_entry)
  from Cons.IH [OF rest d1 fresh_rest run] e1 show ?case
    by (simp split: option.splits)
qed

theorem one_entry_per_id_last_wins_witness:
  "list_all (on_list ''L1'')
     [FETCH_TASKS ''L1'' [mkTask ''T1'' ''a'' OPEN, mkTask ''T2'' ''b'' OPEN],
      GET_TASK ''L1'' (mkTask ''T1'' ''a'' CLOSED),
      CREATE_TASK ''L1'' (mkTask ''T3'' ''c'' OPEN),
      DELETE_TASK ''L1'' ''T2'']
   \<and> distinct (map id_Task (slice_of initialState ''L1''))
   \<and> no_duplicates_brought initialState ''L1''
        [FETCH_TASKS ''L1'' [mkTask ''T1'' ''a'' OPEN, mkTask ''T2'' ''b'' OPEN],
         GET_TASK ''L1'' (mkTask ''T1'' ''a'' CLOSED),
         CREATE_TASK ''L1'' (mkTask ''T3'' ''c'' OPEN),
         DELETE_TASK ''L1'' ''T2'']
   \<and> dispatchAll initialState
        [FETCH_TASKS ''L1'' [mkTask ''T1'' ''a'' OPEN, mkTask ''T2'' ''b'' OPEN],
         GET_TASK ''L1'' (mkTask ''T1'' ''a'' CLOSED),
         CREATE_TASK ''L1'' (mkTask ''T3'' ''c'' OPEN),
         DELETE_TASK ''L1'' ''T2''] =
       Inr (initialState\<lparr>tasks := (tasks initialState)(''L1'' \<mapsto>
         [mkTask ''T1'' ''a'' CLOSED, mkTask ''T3'' ''c'' OPEN])\<rparr>)
   \<and> distinct (map id_Task (slice_of (initialState\<lparr>tasks := (tasks initialState)(''L1'' \<mapsto>
         [mkTask ''T1'' ''a'' CLOSED, mkTask ''T3'' ''c'' OPEN])\<rparr>) ''L1''))
   \<and> entry_with_id ''T1'' (slice_of (initialState\<lparr>tasks := (tasks initialState)(''L1'' \<mapsto>
         [mkTask ''T1'' ''a'' CLOSED, mkTask ''T3'' ''c'' OPEN])\<rparr>) ''L1'') =
       Some (mkTask ''T1'' ''a'' CLOSED)
   \<and> last_reference ''T1''
        [FETCH_TASKS ''L1'' [mkTask ''T1'' ''a'' OPEN, mkTask ''T2'' ''b'' OPEN],
         GET_TASK ''L1'' (mkTask ''T1'' ''a'' CLOSED),
         CREATE_TASK ''L1'' (mkTask ''T3'' ''c'' OPEN),
         DELETE_TASK ''L1'' ''T2''] = Some (Some (mkTask ''T1'' ''a'' CLOSED))"
proof -
  let ?cmds = "[FETCH_TASKS ''L1'' [mkTask ''T1'' ''a'' OPEN, mkTask ''T2'' ''b'' OPEN],
               GET_TASK ''L1'' (mkTask ''T1'' ''a'' CLOSED),
               CREATE_TASK ''L1'' (mkTask ''T3'' ''c'' OPEN),
               DELETE_TASK ''L1'' ''T2'']"
  let ?final = "initialState\<lparr>tasks := (tasks initialState)(''L1'' \<mapsto>
         [mkTask ''T1'' ''a'' CLOSED, mkTask ''T3'' ''c'' OPEN])\<rparr>"
  have h1: "list_all (on_list ''L1'') ?cmds"
    by simp
  have h2: "distinct (map id_Task (slice_of initialState ''L1''))"
    by (simp add: slice_of_def initialState_def)
  have h3: "no_duplicates_brought initialState ''L1'' ?cmds"
    by (simp add: slice_of_def initialState_def mkTask_def)
  have h4: "dispatchAll initialState ?cmds = Inr ?final"
    by (simp add: initialState_def mkTask_def)
  have ref: "last_reference ''T1'' ?cmds = Some (Some (mkTask ''T1'' ''a'' CLOSED))"
    by (simp add: mkTask_def entry_with_id_def)
  from one_entry_per_id_last_wins [OF h1 h2 h3 h4, of "''T1''"] h1 h2 h3 h4 ref
  show ?thesis
    by (simp only: option.case simp_thms)
qed

section \<open>Commands on a list without a slice\<close>

text \<open>
  C3. When \<open>tasks[listId]\<close> is absent, ReplaceTaskField (\<open>UPDATE_TASK\<close>) and
  RemoveTask (\<open>DELETE_TASK\<close>) for that list fault with a \<open>TypeError\<close> and return no
  state, so no slice is created; once ReplaceTasks (\<open>FETCH_TASKS\<close>) has stored a slice
  for the list, the same command is applied without fault.
\<close>

theorem absent_slice_faults:
  assumes "tasks state listId = None"
  shows "reducer state (UPDATE_TASK listId taskId task) = Inl TypeError
       \<and> reducer state (DELETE_TASK listId taskId) = Inl TypeError
       \<and> dispatchAll state [FETCH_TASKS listId ts, UPDATE_TASK listId taskId task] =
           Inr (state\<lparr>tasks := (tasks state)(listId \<mapsto>
             map (\<lambda>t. if id_Task t = taskId then task else t) ts)\<rparr>)
       \<and> dispatchAll state [FETCH_TASKS listId ts, DELETE_TASK listId taskId] =
           Inr (state\<lparr>tasks := (tasks state)(listId \<mapsto>
             filter (\<lambda>t. id_Task t \<noteq> taskId) ts)\<rparr>)"
  using assms by simp

theorem absent_slice_faults_witness:
  "tasks initialState ''L1'' = None
   \<and> reducer initialState (UPDATE_TASK ''L1'' ''T1'' (mkTask ''T1'' ''a'' CLOSED)) = Inl TypeError
   \<and> reducer initialState (DELETE_TASK ''L1'' ''T1'') = Inl TypeError
   \<and> dispatchAll initialState
        [FETCH_TASKS ''L1'' [mkTask ''T1'' ''a'' OPEN],
         UPDATE_TASK ''L1'' ''T1'' (mkTask ''T1'' ''a'' CLOSED)] =
       Inr \<lparr>taskLists = [], tasks = [''L1'' \<mapsto> [mkTask ''T1'' ''a'' CLOSED]]\<rparr>
   \<and> dispatchAll initialState
        [FETCH_TASKS ''L1'' [mkTask ''T1'' ''a'' OPEN], DELETE_TASK ''L1'' ''T1''] =
       Inr \<lparr>taskLists = [], tasks = [''L1'' \<mapsto> []]\<rparr>"
proof -
  have absent: "tasks initialState ''L1'' = None"
    by (simp add: initialState_def)
  from absent_slice_faults [OF absent, of "''T1''" "mkTask ''T1'' ''a'' CLOSED"
      "[mkTask ''T1'' ''a'' OPEN]"]
  show ?thesis
    using absent by (simp add: initialState_def mkTask_def)
qed

section \<open>Completion percentage\<close>



section \<open>Toggling the status of a task\<close>

text \<open>
  C5, as the code has it. The claim that toggling applies an UpsertTask (\<open>GET_TASK\<close>)
  command fails: the commands handed to \<open>dispatch\<close> are ReplaceTaskField
  (\<open>UPDATE_TASK\<close>) and then ReplaceTasks (\<open>FETCH_TASKS\<close>), and no \<open>GET_TASK\<close>.
\<close>

theorem toggle_upsert_counterexample:
  "dispatched (toggleStatus None (Some ''L1'') (mkTask ''T1'' ''a'' OPEN)
      (Inr (mkTask ''T1'' ''a'' CLOSED)) (Inr [mkTask ''T1'' ''a'' CLOSED])) =
     [UPDATE_TASK ''L1'' ''T1'' (mkTask ''T1'' ''a'' CLOSED),
      FETCH_TASKS ''L1'' [mkTask ''T1'' ''a'' CLOSED]]
   \<and> GET_TASK ''L1'' (mkTask ''T1'' ''a'' CLOSED) \<notin>
       set (dispatched (toggleStatus None (Some ''L1'') (mkTask ''T1'' ''a'' OPEN)
         (Inr (mkTask ''T1'' ''a'' CLOSED)) (Inr [mkTask ''T1'' ''a'' CLOSED])))"
  by (simp add: toggleStatus_def truthy_def updateTask_def fetchTasks_def Let_def mkTask_def)

text \<open>
  C5, amended. Toggling an open task of a list sends the whole task object with status
  \<open>CLOSED\<close> in a PUT request and, when the calls succeed, applies ReplaceTaskField
  (\<open>UPDATE_TASK\<close>) with the task object the server returned as payload, then
  ReplaceTasks (\<open>FETCH_TASKS\<close>) with the refetched tasks. When the task is the only one
  of its list and the server returns the toggled task, the completion percentage of the
  list is 100 after the first command and after both.
\<close>

theorem toggle_dispatches_update_then_refetch:
  assumes "listId \<noteq> []" and "status_Task task = OPEN" and "tasks state listId = Some [task]"
  shows "requests (toggleStatus env (Some listId) task (Inr returned) (Inr refetched)) =
           [PUT (API_BASE_URL env @ ''/api/task-lists/'' @ listId @ ''/tasks/'' @ id_Task task)
              (TaskBody (task\<lparr>status_Task := CLOSED\<rparr>)),
            GET (API_BASE_URL env @ ''/api/task-lists/'' @ listId @ ''/tasks'')]
       \<and> dispatched (toggleStatus env (Some listId) task (Inr returned) (Inr refetched)) =
           [UPDATE_TASK listId (id_Task task) returned, FETCH_TASKS listId refetched]
       \<and> (\<exists>state'. reducer state
              (UPDATE_TASK listId (id_Task task) (task\<lparr>status_Task := CLOSED\<rparr>)) = Inr state'
            \<and> tasks state' listId = Some [task\<lparr>status_Task := CLOSED\<rparr>]
            \<and> completionPercentage state' (Some listId) = 100)
       \<and> (\<exists>state'. dispatchAll state
              (dispatched (toggleStatus env (Some listId) task
                 (Inr (task\<lparr>status_Task := CLOSED\<rparr>))
                 (Inr [task\<lparr>status_Task := CLOSED\<rparr>]))) = Inr state'
            \<and> tasks state' listId = Some [task\<lparr>status_Task := CLOSED\<rparr>]
            \<and> completionPercentage state' (Some listId) = 100)"
  using assms
  by (simp add: toggleStatus_def truthy_def updateTask_def fetchTasks_def Let_def
      completionPercentage_def)

theorem toggle_dispatches_update_then_refetch_witness:
  "''L1'' \<noteq> [] \<and> status_Task (mkTask ''T1'' ''a'' OPEN) = OPEN
   \<and> tasks (initialState\<lparr>tasks := (tasks initialState)(''L1'' \<mapsto> [mkTask ''T1'' ''a'' OPEN])\<rparr>)
        ''L1'' = Some [mkTask ''T1'' ''a'' OPEN]
   \<and> dispatched (toggleStatus None (Some ''L1'') (mkTask ''T1'' ''a'' OPEN)
        (Inr (mkTask ''T1'' ''a'' CLOSED)) (Inr [mkTask ''T1'' ''a'' CLOSED])) =
       [UPDATE_TASK ''L1'' ''T1'' (mkTask ''T1'' ''a'' CLOSED),
        FETCH_TASKS ''L1'' [mkTask ''T1'' ''a'' CLOSED]]
   \<and> completionPercentage
        (initialState\<lparr>tasks := (tasks initialState)(''L1'' \<mapsto> [mkTask ''T1'' ''a'' CLOSED])\<rparr>)
        (Some ''L1'') = 100"
proof -
  let ?state = "initialState\<lparr>tasks := (tasks initialState)(''L1'' \<mapsto> [mkTask ''T1'' ''a'' OPEN])\<rparr>"
  have h1: "''L1'' \<noteq> []" by simp
  have h2: "status_Task (mkTask ''T1'' ''a'' OPEN) = OPEN" by (simp add: mkTask_def)
  have h3: "tasks ?state ''L1'' = Some [mkTask ''T1'' ''a'' OPEN]" by simp
  have closed: "(mkTask ''T1'' ''a'' OPEN)\<lparr>status_Task := CLOSED\<rparr> = mkTask ''T1'' ''a'' CLOSED"
    and ident: "id_Task (mkTask ''T1'' ''a'' OPEN) = ''T1''"
    by (simp_all add: mkTask_def)
  from toggle_dispatches_update_then_refetch [OF h1 h2 h3, of None "mkTask ''T1'' ''a'' CLOSED"
      "[mkTask ''T1'' ''a'' CLOSED]"]
  show ?thesis
    using h1 h2 h3 by (auto simp: closed ident initialState_def)
qed

section \<open>Commands on the task lists\<close>

text \<open>
  C6. RemoveTaskList (\<open>DELETE_TASKLIST\<close>) is applied without fault and leaves the
  \<open>tasks\<close> mapping as it was: nothing is removed from it, and the slice stored for the
  deleted list stays in the cache.
\<close>

theorem delete_tasklist_keeps_tasks:
  "\<exists>state'. reducer state (DELETE_TASKLIST listId) = Inr state'
     \<and> tasks state' = tasks state
     \<and> tasks state' listId = tasks state listId"
  by simp

text \<open>
  C7. After RemoveTaskList (\<open>DELETE_TASKLIST\<close>) no entry of \<open>taskLists\<close> has the given
  id, and the entries with another id are the same as before, in the same order.
\<close>

theorem delete_tasklist_removes_exactly:
  "\<exists>state'. reducer state (DELETE_TASKLIST listId) = Inr state'
     \<and> listId \<notin> set (map id_TaskList (taskLists state'))
     \<and> filter (\<lambda>wl. id_TaskList wl \<noteq> listId) (taskLists state') =
         filter (\<lambda>wl. id_TaskList wl \<noteq> listId) (taskLists state)"
  by auto

text \<open>
  C8. Applying ReplaceTaskLists (\<open>FETCH_TASKLISTS\<close>) with the same lists twice in a row
  gives the state that applying it once gives.
\<close>

theorem fetch_tasklists_idempotent:
  "dispatchAll state [FETCH_TASKLISTS X, FETCH_TASKLISTS X] = dispatchAll state [FETCH_TASKLISTS X]
   \<and> dispatchAll state [FETCH_TASKLISTS X] = Inr (state\<lparr>taskLists := X\<rparr>)"
  by simp

text \<open>
  C9. ReplaceTaskListField (\<open>UPDATE_TASKLIST\<close>) with a payload whose id matches no entry
  of \<open>taskLists\<close> returns the state unchanged, without fault and without appending the
  payload; ReplaceTaskField (\<open>UPDATE_TASK\<close>) faults when the slice it needs is absent.
\<close>

theorem update_tasklist_unknown_id:
  "(id_TaskList payload \<notin> set (map id_TaskList (taskLists state))
      \<longrightarrow> reducer state (UPDATE_TASKLIST payload) = Inr state)
   \<and> (tasks state listId = None
      \<longrightarrow> reducer state (UPDATE_TASK listId taskId task) = Inl TypeError)"
proof (intro conjI impI)
  assume unknown: "id_TaskList payload \<notin> set (map id_TaskList (taskLists state))"
  have "map (\<lambda>wl. if id_TaskList wl = id_TaskList payload then payload else wl)
          (taskLists state) = taskLists state"
    using unknown by (rule replace_unknown_id)
  then show "reducer state (UPDATE_TASKLIST payload) = Inr state"
    by simp
next
  assume "tasks state listId = None"
  then show "reducer state (UPDATE_TASK listId taskId task) = Inl TypeError"
    by simp
qed

theorem update_tasklist_unknown_id_witness:
  "id_TaskList (mkTaskList ''L2'' ''Work'') \<notin>
     set (map id_TaskList (taskLists (initialState\<lparr>taskLists := [mkTaskList ''L1'' ''Home'']\<rparr>)))
   \<and> reducer (initialState\<lparr>taskLists := [mkTaskList ''L1'' ''Home'']\<rparr>)
        (UPDATE_TASKLIST (mkTaskList ''L2'' ''Work'')) =
       Inr (initialState\<lparr>taskLists := [mkTaskList ''L1'' ''Home'']\<rparr>)
   \<and> tasks (initialState\<lparr>taskLists := [mkTaskList ''L1'' ''Home'']\<rparr>) ''L1'' = None
   \<and> reducer (initialState\<lparr>taskLists := [mkTaskList ''L1'' ''Home'']\<rparr>)
        (UPDATE_TASK ''L1'' ''T1'' (mkTask ''T1'' ''a'' CLOSED)) = Inl TypeError"
proof -
  let ?state = "initialState\<lparr>taskLists := [mkTaskList ''L1'' ''Home'']\<rparr>"
  have unknown: "id_TaskList (mkTaskList ''L2'' ''Work'') \<notin> set (map id_TaskList (taskLists ?state))"
    by (simp add: mkTaskList_def)
  have absent: "tasks ?state ''L1'' = None"
    by (simp add: initialState_def)
  from update_tasklist_unknown_id [of "mkTaskList ''L2'' ''Work''" ?state "''L1''" "''T1''"
      "mkTask ''T1'' ''a'' CLOSED"] unknown absent
  show ?thesis
    by (simp only: simp_thms)
qed

text \<open>
  C10. A command that is applied without fault deletes no key of the \<open>tasks\<close> mapping:
  every list id that is a key before is a key afterwards. After RemoveTask
  (\<open>DELETE_TASK\<close>) the list still has a slice, which may be empty.
\<close>

theorem tasks_keys_never_deleted:
  assumes "reducer state action = Inr state'"
  shows "dom (tasks state) \<subseteq> dom (tasks state')
       \<and> (\<forall>listId taskId. action = DELETE_TASK listId taskId \<longrightarrow> tasks state' listId \<noteq> None)"
  using assms by (cases action) (auto simp: Let_def split: option.splits)

theorem tasks_keys_never_deleted_witness:
  "reducer (initialState\<lparr>tasks := (tasks initialState)(''L1'' \<mapsto> [mkTask ''T1'' ''a'' OPEN])\<rparr>)
     (DELETE_TASK ''L1'' ''T1'') =
     Inr (initialState\<lparr>tasks := (tasks initialState)(''L1'' \<mapsto> [])\<rparr>)
   \<and> dom (tasks (initialState\<lparr>tasks := (tasks initialState)(''L1'' \<mapsto> [mkTask ''T1'' ''a'' OPEN])\<rparr>))
       \<subseteq> dom (tasks (initialState\<lparr>tasks := (tasks initialState)(''L1'' \<mapsto> [])\<rparr>))
   \<and> tasks (initialState\<lparr>tasks := (tasks initialState)(''L1'' \<mapsto> [])\<rparr>) ''L1'' \<noteq> None"
proof -
  let ?before = "initialState\<lparr>tasks := (tasks initialState)(''L1'' \<mapsto> [mkTask ''T1'' ''a'' OPEN])\<rparr>"
  let ?after = "initialState\<lparr>tasks := (tasks initialState)(''L1'' \<mapsto> [])\<rparr>"
  have step: "reducer ?before (DELETE_TASK ''L1'' ''T1'') = Inr ?after"
    by (simp add: mkTask_def)
  from tasks_keys_never_deleted [OF step] step show ?thesis
    by blast
qed

end
